theory Spec2Isabelle
  imports Complex_Main
begin

section \<open>JavaScript numbers and strings used by the clock arithmetic\<close>

text \<open>
  The engine works on clock strings \<open>HH:MM\<close> and on minute counts. Minute counts that
  come from clock strings are integers and are modelled as \<open>int\<close>; configuration
  values in hours (weekly cap, daily journey) and money are modelled as exact rationals,
  so the rounding of IEEE doubles is not part of the model.

  \<open>Number(s)\<close> is modelled on the fragment the clock code produces and validates:
  after trimming white space, the empty string is \<open>0\<close>, a string of decimal digits is
  its value, and every other string is \<open>None\<close> (standing for \<open>NaN\<close>; signs,
  fractions, exponents and radix prefixes are outside the modelled fragment).
\<close>

definition digit_chars :: string where
  "digit_chars = ''0123456789''"

definition digit_char :: "nat \<Rightarrow> char" where
  "digit_char d = digit_chars ! d"

definition is_digit :: "char \<Rightarrow> bool" where
  "is_digit c = (c \<in> set digit_chars)"

definition digit_val :: "char \<Rightarrow> nat" where
  "digit_val c = length (takeWhile (\<lambda>d. d \<noteq> c) digit_chars)"

text \<open>\<open>n.toString()\<close> for an integer: decimal digits, with a minus sign when negative.\<close>

fun show_nat :: "nat \<Rightarrow> string" where
  "show_nat n = (if n < 10 then [digit_char n] else show_nat (n div 10) @ [digit_char (n mod 10)])"

declare show_nat.simps [simp del]

definition js_toString :: "int \<Rightarrow> string" where
  "js_toString i = (if i < 0 then CHR ''-'' # show_nat (nat (- i)) else show_nat (nat i))"

text \<open>\<open>s.padStart(n, '0')\<close>.\<close>

definition padStart0 :: "nat \<Rightarrow> string \<Rightarrow> string" where
  "padStart0 n s = replicate (n - length s) CHR ''0'' @ s"

definition read_nat :: "string \<Rightarrow> nat" where
  "read_nat s = foldl (\<lambda>a c. 10 * a + digit_val c) 0 s"

text \<open>\<open>s.trim()\<close>, for the ASCII white space characters.\<close>

definition is_space :: "char \<Rightarrow> bool" where
  "is_space c = (c \<in> set [CHR '' '', CHR 0x09, CHR 0x0A, CHR 0x0B, CHR 0x0C, CHR 0x0D])"

definition js_trim :: "string \<Rightarrow> string" where
  "js_trim s = rev (dropWhile is_space (rev (dropWhile is_space s)))"

definition js_Number :: "string \<Rightarrow> int option" where
  "js_Number s =
     (let t = js_trim s
      in if t = [] then Some 0
         else if list_all is_digit t then Some (int (read_nat t))
         else None)"

text \<open>\<open>s.split(':')\<close>: the fields between colons, at least one.\<close>

fun split_colon :: "string \<Rightarrow> string list" where
  "split_colon [] = [[]]"
| "split_colon (c # cs) =
     (if c = CHR '':'' then [] # split_colon cs
      else (case split_colon cs of [] \<Rightarrow> [[c]] | p # ps \<Rightarrow> (c # p) # ps))"

text \<open>JavaScript's \<open>%\<close> on integers truncates towards zero (the sign of the dividend).\<close>

definition js_rem :: "int \<Rightarrow> int \<Rightarrow> int" where
  "js_rem a b = a - b * (if 0 \<le> a then a div b else - ((- a) div b))"

subsection \<open>timeMath: timeToMinutes, minutesToTime; holerithProjection: formatClock\<close>

text \<open>
  \<^verbatim>\<open>
  export function timeToMinutes(time: string): number {
    if (!time || !time.includes(':')) return 0;
    const [h, m] = time.split(':').map(Number);
    if (!Number.isFinite(h) || !Number.isFinite(m)) return 0;
    return h * 60 + m;
  }
  export function minutesToTime(minutes: number): string {
    const h = Math.floor(minutes / 60);
    const m = Math.round(minutes % 60);
    return `${h.toString().padStart(2, '0')}:${m.toString().padStart(2, '0')}`;
  }
  function formatClock(totalMinutes: number): string {
    const value = ((Math.round(totalMinutes) % (24 * 60)) + (24 * 60)) % (24 * 60);
    const hh = Math.floor(value / 60);
    const mm = value % 60;
    return `${hh.toString().padStart(2, '0')}:${mm.toString().padStart(2, '0')}`;
  }
  \<close>
\<close>

definition timeToMinutes :: "string \<Rightarrow> int" where
  "timeToMinutes time =
     (if time = [] then 0
      else if CHR '':'' \<notin> set time then 0
      else (case split_colon time of
              hs # ms # _ \<Rightarrow>
                (case (js_Number hs, js_Number ms) of
                   (Some h, Some m) \<Rightarrow> h * 60 + m
                 | _ \<Rightarrow> 0)
            | _ \<Rightarrow> 0))"

definition minutesToTime :: "int \<Rightarrow> string" where
  "minutesToTime minutes =
     (let h = minutes div 60;
          m = js_rem minutes 60
      in padStart0 2 (js_toString h) @ '':'' @ padStart0 2 (js_toString m))"

definition formatClock :: "int \<Rightarrow> string" where
  "formatClock totalMinutes =
     (let value = js_rem (js_rem totalMinutes (24 * 60) + 24 * 60) (24 * 60);
          hh = value div 60;
          mm = js_rem value 60
      in padStart0 2 (js_toString hh) @ '':'' @ padStart0 2 (js_toString mm))"

section \<open>Competence dates: resolveWorkDateByCompetenciaDay\<close>

text \<open>
  \<^verbatim>\<open>
  export function resolveWorkDateByCompetenciaDay(day, referenceMonth, referenceYear, cycleStartDay) {
    let month = referenceMonth;
    let year = referenceYear;
    if (cycleStartDay > 1 && day > cycleStartDay) {
      month -= 1;
      if (month === 0) { month = 12; year -= 1; }
    }
    return `${year}-${month.toString().padStart(2, '0')}-${day.toString().padStart(2, '0')}`;
  }
  \<close>
  The two assignments to \<open>month\<close> and \<open>year\<close> are modelled by a pair that is
  replaced in each branch.
\<close>

definition resolveWorkDateByCompetenciaDay :: "int \<Rightarrow> int \<Rightarrow> int \<Rightarrow> int \<Rightarrow> string" where
  "resolveWorkDateByCompetenciaDay day referenceMonth referenceYear cycleStartDay =
     (let my0 = (referenceMonth, referenceYear);
          my1 = (if cycleStartDay > 1 \<and> day > cycleStartDay
                 then (let my = (fst my0 - 1, snd my0)
                       in if fst my = 0 then (12, snd my - 1) else my)
                 else my0)
      in js_toString (snd my1) @ ''-'' @ padStart0 2 (js_toString (fst my1)) @ ''-'' @
         padStart0 2 (js_toString day))"

text \<open>The ISO date text \<open>YYYY-MM-DD\<close> of a year, a month and a day, used to state results.\<close>

definition iso_date :: "int \<Rightarrow> int \<Rightarrow> int \<Rightarrow> string" where
  "iso_date y m d =
     js_toString y @ ''-'' @ padStart0 2 (js_toString m) @ ''-'' @ padStart0 2 (js_toString d)"

section \<open>Payroll tax engine: calcularHoleriteCompleto, steps 2 to 7\<close>

text \<open>
  Money and hours are exact rationals. Optional parameters with a default
  (\<open>atraso = 0\<close>, \<open>dependentes = 0\<close>) are options. The counts of business days and of
  Sundays and holidays are computed by \<open>getDiasUteisEDomingos\<close> from the host's
  \<open>Date\<close> object and time zone; the model takes that result as the argument
  \<open>dias\<close>. The record \<open>Valores\<close> holds the values of the local variables of steps 2
  to 7 before the function rounds them to cents with \<open>toFixed(2)\<close> for its result;
  steps 8 to 14 (advance payment and net pay) are not modelled.
\<close>

record PayrollParams =
  salarioBase :: rat
  horasMensais :: rat
  he50 :: rat
  he75 :: rat
  he100 :: rat
  he125 :: rat
  perc50 :: rat
  perc100 :: rat
  percNight :: rat
  atraso :: "rat option"
  dependentes :: "rat option"










section \<open>Calendar dates\<close>

text \<open>
  A JavaScript \<open>Date\<close> holding a local calendar day is modelled by its year, month
  (1 to 12) and day of month. \<open>getDay\<close> is the weekday (0 is Sunday) of the proleptic
  Gregorian calendar, computed from the day number since 1970-01-01, a Thursday.
  \<open>parseISO\<close> (date-fns) is modelled on the date-only form \<open>YYYY-MM-DD\<close>, the form
  the engine's own date strings have; any other text, and a day that does not exist in
  its month, is \<open>None\<close> (an invalid date).
\<close>

record CivilDate =
  cyear :: int
  cmonth :: int
  cday :: int

definition is_leap_year :: "int \<Rightarrow> bool" where
  "is_leap_year y =
     (if y mod 400 = 0 then True else if y mod 100 = 0 then False else y mod 4 = 0)"

definition days_in_month :: "int \<Rightarrow> int \<Rightarrow> int" where
  "days_in_month y m =
     (if m = 2 then (if is_leap_year y then 29 else 28)
      else if m = 4 \<or> m = 6 \<or> m = 9 \<or> m = 11 then 30
      else 31)"

definition days_from_civil :: "CivilDate \<Rightarrow> int" where
  "days_from_civil dt =
     (let y = (if cmonth dt \<le> 2 then cyear dt - 1 else cyear dt);
          era = y div 400;
          yoe = y - era * 400;
          mp = (if cmonth dt > 2 then cmonth dt - 3 else cmonth dt + 9);
          doy = (153 * mp + 2) div 5 + cday dt - 1;
          doe = yoe * 365 + yoe div 4 - yoe div 100 + doy
      in era * 146097 + doe - 719468)"

definition getDay :: "CivilDate \<Rightarrow> int" where
  "getDay dt = (days_from_civil dt + 4) mod 7"

text \<open>\<open>new Date(year, monthIndex, 1)\<close>: a year from 0 to 99 means 1900 + year.\<close>

definition new_Date_first :: "int \<Rightarrow> int \<Rightarrow> CivilDate" where
  "new_Date_first y m =
     \<lparr>cyear = (if 0 \<le> y \<and> y \<le> 99 then 1900 + y else y), cmonth = m, cday = 1\<rparr>"

definition parseISO :: "string \<Rightarrow> CivilDate option" where
  "parseISO s =
     (if length s = 10 \<and> s ! 4 = CHR ''-'' \<and> s ! 7 = CHR ''-''
         \<and> list_all is_digit (take 4 s) \<and> list_all is_digit (take 2 (drop 5 s))
         \<and> list_all is_digit (drop 8 s)
      then (let y = int (read_nat (take 4 s));
                m = int (read_nat (take 2 (drop 5 s)));
                d = int (read_nat (drop 8 s))
            in if 1 \<le> m \<and> m \<le> 12 \<and> 1 \<le> d \<and> d \<le> days_in_month y m
               then Some \<lparr>cyear = y, cmonth = m, cday = d\<rparr>
               else None)
      else None)"

section \<open>Custom weeks\<close>

text \<open>
  \<^verbatim>\<open>
  const dayOfMonth = date.getDate();
  const firstOfMonth = new Date(date.getFullYear(), date.getMonth(), 1);
  const dayOfWeekFirstOfMonth = ((firstOfMonth.getDay() + 6) % 7) + 1; // Monday=1 ... Sunday=7
  const daysUntilFirstSunday = 7 - (dayOfWeekFirstOfMonth % 7);
  let weekIndex = 1;
  if (dayOfMonth > daysUntilFirstSunday) {
    weekIndex = 1 + Math.ceil((dayOfMonth - daysUntilFirstSunday) / 7);
  }
  \<close>
  This computation occurs twice with the same text, in \<open>groupByCustomWeek\<close> (overtime
  engine) and in \<open>getCustomWeekKey\<close> (projection); \<open>customWeekIndex\<close> is that common
  part. \<open>Math.ceil\<close> of the quotient of a positive integer by 7 is written with integer
  division.
\<close>

definition customWeekIndex :: "CivilDate \<Rightarrow> int" where
  "customWeekIndex dt =
     (let dayOfMonth = cday dt;
          firstOfMonth = new_Date_first (cyear dt) (cmonth dt);
          dayOfWeekFirstOfMonth = (getDay firstOfMonth + 6) mod 7 + 1;
          daysUntilFirstSunday = 7 - (dayOfWeekFirstOfMonth mod 7)
      in if dayOfMonth > daysUntilFirstSunday
         then 1 + (dayOfMonth - daysUntilFirstSunday + 6) div 7
         else 1)"

text \<open>
  \<open>getCustomWeekKey\<close> returns \<open>`${monthYear}-W${weekIndex}`\<close> with
  \<open>monthYear = `${year}-${month padded to 2}`\<close>.
\<close>

definition getCustomWeekKey :: "CivilDate \<Rightarrow> string" where
  "getCustomWeekKey dt =
     js_toString (cyear dt) @ ''-'' @ padStart0 2 (js_toString (cmonth dt)) @ ''-W'' @
     js_toString (customWeekIndex dt)"

text \<open>
  The first Sunday of the month of a date, as the specification's week 1 needs it: the
  first of the days 1 to 7 of that month whose weekday is Sunday.
\<close>

definition first_sunday_of_month :: "CivilDate \<Rightarrow> int" where
  "first_sunday_of_month dt =
     hd (filter (\<lambda>d. getDay (dt\<lparr>cday := d\<rparr>) = 0) [1, 2, 3, 4, 5, 6, 7])"

section \<open>Punch entries and settings\<close>

text \<open>
  \<open>TimeEntry\<close> and the projection's \<open>CardRow\<close> are one record here: the fields the
  engine and the projection read or write. An absent optional string is the empty
  string, an absent optional flag is \<open>False\<close>. \<open>Settings\<close> likewise holds the fields
  used by the engine and the projection; numbers in hours or money are rationals.
\<close>

record TimeEntry =
  date :: string
  workDate :: string
  day :: string
  entry1 :: string
  exit1 :: string
  entry2 :: string
  exit2 :: string
  entryExtra :: string
  exitExtra :: string
  totalHours :: string
  isDPAnnotation :: bool
  isOvertimeCard :: bool

record Settings =
  baseSalary :: rat
  monthlyHours :: rat
  dailyJourney :: rat
  weeklyLimit :: rat
  nightCutoff :: string
  percent50 :: rat
  percent100 :: rat
  percentNight :: rat
  saturdayCompensation :: bool
  compDays :: string
  cycleStartDay :: int
  workStart :: string
  lunchStart :: string
  lunchEnd :: string
  workEnd :: string
  saturdayWorkStart :: string
  saturdayWorkEnd :: string

text \<open>\<open>s || d\<close> on strings: the default replaces the empty (or absent) string.\<close>

definition or_default :: "string \<Rightarrow> string \<Rightarrow> string" where
  "or_default s d = (if s = [] then d else s)"

text \<open>\<open>Math.round\<close>: the nearest integer, a half rounding up.\<close>

definition js_round :: "rat \<Rightarrow> int" where
  "js_round x = \<lfloor>x + 1 / 2\<rfloor>"

section \<open>timeMath\<close>

text \<open>
  \<^verbatim>\<open>
  const CLOCK_RX = /^\d{1,2}:\d{2}$/;
  export function normalizeClock(value: unknown): string {
    const str = String(value ?? '').trim();
    return CLOCK_RX.test(str) ? str : '';
  }
  export function diffMinutes(start: string, end: string): number {
    const s = normalizeClock(start);
    const e = normalizeClock(end);
    if (!s || !e) return 0;
    let duration = timeToMinutes(e) - timeToMinutes(s);
    if (duration < 0) duration += 24 * 60;
    return Math.max(0, duration);
  }
  \<close>
\<close>

definition CLOCK_RX :: "string \<Rightarrow> bool" where
  "CLOCK_RX s =
     (if length s = 4
      then is_digit (s ! 0) \<and> s ! 1 = CHR '':'' \<and> is_digit (s ! 2) \<and> is_digit (s ! 3)
      else if length s = 5
      then is_digit (s ! 0) \<and> is_digit (s ! 1) \<and> s ! 2 = CHR '':'' \<and> is_digit (s ! 3)
           \<and> is_digit (s ! 4)
      else False)"

definition normalizeClock :: "string \<Rightarrow> string" where
  "normalizeClock v = (let str = js_trim v in if CLOCK_RX str then str else [])"

definition diffMinutes :: "string \<Rightarrow> string \<Rightarrow> int" where
  "diffMinutes start end =
     (let s = normalizeClock start;
          e = normalizeClock end
      in if s = [] then 0 else if e = [] then 0
         else (let duration0 = timeToMinutes e - timeToMinutes s;
                   duration = (if duration0 < 0 then duration0 + 24 * 60 else duration0)
               in max 0 duration))"

definition periodsFromEntry :: "TimeEntry \<Rightarrow> (string \<times> string) list" where
  "periodsFromEntry e =
     [(entry1 e, exit1 e), (entry2 e, exit2 e), (entryExtra e, exitExtra e)]"

definition sumPeriodsMinutes :: "(string \<times> string) list \<Rightarrow> int" where
  "sumPeriodsMinutes periods = foldl (\<lambda>acc (start, end). acc + diffMinutes start end) 0 periods"

definition sumEntryWorkedMinutes :: "TimeEntry \<Rightarrow> int" where
  "sumEntryWorkedMinutes e = sumPeriodsMinutes (periodsFromEntry e)"

text \<open>
  \<^verbatim>\<open>
  export function getLastExitMinutes(entry: PunchEntryLike): number {
    const periods = periodsFromEntry(entry).filter(([start, end]) => !!normalizeClock(start) && !!normalizeClock(end));
    if (periods.length === 0) return 0;
    const [, lastExit] = periods[periods.length - 1];
    return timeToMinutes(lastExit);
  }
  \<close>
\<close>

definition getLastExitMinutes :: "TimeEntry \<Rightarrow> int" where
  "getLastExitMinutes e =
     (let periods = filter (\<lambda>(start, end). normalizeClock start \<noteq> [] \<and> normalizeClock end \<noteq> [])
                      (periodsFromEntry e)
      in if periods = [] then 0 else timeToMinutes (snd (last periods)))"

text \<open>\<open>s.split(',')\<close>, as \<open>split_colon\<close> splits at colons.\<close>

fun split_comma :: "string \<Rightarrow> string list" where
  "split_comma [] = [[]]"
| "split_comma (c # cs) =
     (if c = CHR '','' then [] # split_comma cs
      else (case split_comma cs of [] \<Rightarrow> [[c]] | p # ps \<Rightarrow> (c # p) # ps))"

text \<open>
  \<^verbatim>\<open>
  export function parseCompDays(compDaysRaw?: string): number[] {
    return (compDaysRaw || '1,2,3,4').split(',').map((v) => Number(v)).filter((v) => Number.isFinite(v));
  }
  export function resolveDailyJourneyMinutes(baseDailyJourneyHours, isOvertimeCardEntry, dayOfWeek,
                                             saturdayCompensation, compDaysRaw): number {
    if (isOvertimeCardEntry) return 0;
    let journey = Math.round((baseDailyJourneyHours || 0) * 60);
    if (!saturdayCompensation) return journey;
    const compDays = parseCompDays(compDaysRaw);
    if (compDays.includes(dayOfWeek)) return journey + 60;
    if (dayOfWeek === 6) return 0;
    return journey;
  }
  \<close>
\<close>

definition parseCompDays :: "string \<Rightarrow> int list" where
  "parseCompDays compDaysRaw =
     List.map_filter js_Number (split_comma (or_default compDaysRaw ''1,2,3,4''))"

definition resolveDailyJourneyMinutes :: "rat \<Rightarrow> bool \<Rightarrow> int \<Rightarrow> bool \<Rightarrow> string \<Rightarrow> int" where
  "resolveDailyJourneyMinutes baseDailyJourneyHours isOvertimeCardEntry_v dayOfWeek
       saturdayCompensation_v compDaysRaw =
     (if isOvertimeCardEntry_v then 0
      else (let journey = js_round (baseDailyJourneyHours * 60)
            in if saturdayCompensation_v
               then (if dayOfWeek \<in> set (parseCompDays compDaysRaw) then journey + 60
                     else if dayOfWeek = 6 then 0
                     else journey)
               else journey))"

section \<open>Overtime engine: the per-day rule chain\<close>

record MutableTotals =
  total50Minutes :: int
  total75Minutes :: int
  total100Minutes :: int
  total125Minutes :: int
  totalBancoHoras :: int

record WeekContext = MutableTotals +
  weekOvertimeAccumulator :: int

text \<open>
  \<open>DayRuleContext\<close>: \<open>week\<close> and \<open>grand\<close> are the objects the rules mutate; a rule is
  modelled as a function from the context to the updated context.
\<close>

record DayRuleContext =
  entry :: TimeEntry
  settings :: Settings
  nightCutoffMinutes :: int
  week :: WeekContext
  grand :: MutableTotals
  isSunday :: bool
  isOvertimeCardEntry :: bool
  dailyJourneyMinutesEntry :: int
  dailyTotalMinutes :: int
  dayOvertimeMinutes :: int
  dayEndMinutes :: int

definition resolveJourneyRule :: "DayRuleContext \<Rightarrow> DayRuleContext" where
  "resolveJourneyRule ctx =
     (let dayOfWeek = (case parseISO (date (entry ctx)) of None \<Rightarrow> 0 | Some dt \<Rightarrow> getDay dt)
      in ctx\<lparr>dailyJourneyMinutesEntry :=
               resolveDailyJourneyMinutes (dailyJourney (settings ctx)) (isOvertimeCardEntry ctx)
                 dayOfWeek (saturdayCompensation (settings ctx)) (compDays (settings ctx))\<rparr>)"

definition computeWorkedTimeRule :: "DayRuleContext \<Rightarrow> DayRuleContext" where
  "computeWorkedTimeRule ctx =
     ctx\<lparr>dailyTotalMinutes := sumEntryWorkedMinutes (entry ctx),
         dayEndMinutes := getLastExitMinutes (entry ctx)\<rparr>"

text \<open>
  \<^verbatim>\<open>
  ctx.dayOvertimeMinutes = ctx.isSunday
    ? ctx.dailyTotalMinutes
    : Math.max(0, ctx.dailyTotalMinutes - (ctx.dailyJourneyMinutesEntry || (ctx.dailyTotalMinutes > 0 ? 0 : Infinity)));
  \<close>
  With a journey of 0 and no worked minutes the subtrahend is \<open>Infinity\<close> and the maximum
  is 0.
\<close>

definition computeDayOvertimeRule :: "DayRuleContext \<Rightarrow> DayRuleContext" where
  "computeDayOvertimeRule ctx =
     ctx\<lparr>dayOvertimeMinutes :=
           (if isSunday ctx then dailyTotalMinutes ctx
            else if dailyJourneyMinutesEntry ctx \<noteq> 0
            then max 0 (dailyTotalMinutes ctx - dailyJourneyMinutesEntry ctx)
            else if dailyTotalMinutes ctx > 0 then max 0 (dailyTotalMinutes ctx - 0)
            else 0)\<rparr>"

text \<open>
  The two normalising loops of the classifier,
  \<^verbatim>\<open>while (minuteOfDay < 0) minuteOfDay += 24 * 60;\<close> and
  \<^verbatim>\<open>while (minuteOfDay >= 24 * 60) minuteOfDay -= 24 * 60;\<close>
\<close>

function wrap_negative :: "rat \<Rightarrow> rat" where
  "wrap_negative m = (if m < 0 then wrap_negative (m + 24 * 60) else m)"
  by pat_completeness auto
termination
proof (relation "measure (\<lambda>m. nat \<lceil>- m\<rceil>)")
  show "wf (measure (\<lambda>m::rat. nat \<lceil>- m\<rceil>))" by simp
next
  fix m :: rat
  assume "m < 0"
  then have "0 < \<lceil>- m\<rceil>" by simp
  moreover have "\<lceil>- (m + 24 * 60)\<rceil> = \<lceil>- m\<rceil> - 1440"
  proof -
    have "- (m + 24 * 60) = - m - of_int 1440" by simp
    then show ?thesis by (simp only: ceiling_diff_of_int)
  qed
  ultimately show "(m + 24 * 60, m) \<in> measure (\<lambda>m. nat \<lceil>- m\<rceil>)" by simp
qed

function wrap_overflow :: "rat \<Rightarrow> rat" where
  "wrap_overflow m = (if m \<ge> 24 * 60 then wrap_overflow (m - 24 * 60) else m)"
  by pat_completeness auto
termination
proof (relation "measure (\<lambda>m. nat \<lceil>m\<rceil>)")
  show "wf (measure (\<lambda>m::rat. nat \<lceil>m\<rceil>))" by simp
next
  fix m :: rat
  assume a: "24 * 60 \<le> m"
  then have "1440 \<le> \<lceil>m\<rceil>" by (simp add: le_ceiling_iff)
  moreover have "\<lceil>m - 24 * 60\<rceil> = \<lceil>m\<rceil> - 1440"
  proof -
    have "m - 24 * 60 = m - of_int 1440" by simp
    then show ?thesis by (simp only: ceiling_diff_of_int)
  qed
  ultimately show "(m - 24 * 60, m) \<in> measure (\<lambda>m. nat \<lceil>m\<rceil>)" by simp
qed

declare wrap_negative.simps [simp del] wrap_overflow.simps [simp del]

text \<open>Adding one minute to a tier, in the week's totals and in the grand totals.\<close>

definition add50 :: "DayRuleContext \<Rightarrow> DayRuleContext" where
  "add50 ctx = ctx\<lparr>week := (week ctx)\<lparr>total50Minutes := total50Minutes (week ctx) + 1\<rparr>,
                   grand := (grand ctx)\<lparr>total50Minutes := total50Minutes (grand ctx) + 1\<rparr>\<rparr>"

definition add75 :: "DayRuleContext \<Rightarrow> DayRuleContext" where
  "add75 ctx = ctx\<lparr>week := (week ctx)\<lparr>total75Minutes := total75Minutes (week ctx) + 1\<rparr>,
                   grand := (grand ctx)\<lparr>total75Minutes := total75Minutes (grand ctx) + 1\<rparr>\<rparr>"

definition add100 :: "DayRuleContext \<Rightarrow> DayRuleContext" where
  "add100 ctx = ctx\<lparr>week := (week ctx)\<lparr>total100Minutes := total100Minutes (week ctx) + 1\<rparr>,
                    grand := (grand ctx)\<lparr>total100Minutes := total100Minutes (grand ctx) + 1\<rparr>\<rparr>"

definition add125 :: "DayRuleContext \<Rightarrow> DayRuleContext" where
  "add125 ctx = ctx\<lparr>week := (week ctx)\<lparr>total125Minutes := total125Minutes (week ctx) + 1\<rparr>,
                    grand := (grand ctx)\<lparr>total125Minutes := total125Minutes (grand ctx) + 1\<rparr>\<rparr>"

text \<open>
  The body of the classifier's loop, for the value \<open>processed\<close> of its counter:
  \<^verbatim>\<open>
    const currentMinuteFromEnd = ctx.dayEndMinutes - (processed + 0.5);
    let minuteOfDay = currentMinuteFromEnd;
    while (minuteOfDay < 0) minuteOfDay += 24 * 60;
    while (minuteOfDay >= 24 * 60) minuteOfDay -= 24 * 60;
    const isNight = minuteOfDay >= ctx.nightCutoffMinutes || minuteOfDay < 5 * 60;
    if (ctx.isSunday) {
      if (isNight) { week.total125Minutes += 1; grand.total125Minutes += 1; }
      else { week.total100Minutes += 1; grand.total100Minutes += 1; }
    } else {
      const limitMinutes = (ctx.settings.weeklyLimit || 0) * 60;
      const isWithinLimit = limitMinutes > 0 ? ctx.week.weekOvertimeAccumulator < limitMinutes : true;
      if (isWithinLimit) { night: total75Minutes += 1, otherwise total50Minutes += 1 }
      else { night: total125Minutes += 1, otherwise total100Minutes += 1 }
      ctx.week.weekOvertimeAccumulator += 1;
    }
  \<close>
\<close>

definition classifyMinute :: "DayRuleContext \<Rightarrow> int \<Rightarrow> DayRuleContext" where
  "classifyMinute ctx processed =
     (let currentMinuteFromEnd = of_int (dayEndMinutes ctx) - (of_int processed + 1 / 2);
          minuteOfDay = wrap_overflow (wrap_negative currentMinuteFromEnd);
          isNight = (minuteOfDay \<ge> of_int (nightCutoffMinutes ctx) \<or> minuteOfDay < 5 * 60)
      in if isSunday ctx
         then (if isNight then add125 ctx else add100 ctx)
         else (let limitMinutes = weeklyLimit (settings ctx) * 60;
                   isWithinLimit = (if limitMinutes > 0
                                    then of_int (weekOvertimeAccumulator (week ctx)) < limitMinutes
                                    else True);
                   ctx1 = (if isWithinLimit
                           then (if isNight then add75 ctx else add50 ctx)
                           else (if isNight then add125 ctx else add100 ctx))
               in ctx1\<lparr>week := (week ctx1)\<lparr>weekOvertimeAccumulator :=
                                               weekOvertimeAccumulator (week ctx1) + 1\<rparr>\<rparr>))"

text \<open>\<^verbatim>\<open>while (processed < totalOvertimeToProcess) { ...; processed += 1; }\<close>\<close>

function classifyLoop :: "int \<Rightarrow> int \<Rightarrow> DayRuleContext \<Rightarrow> DayRuleContext" where
  "classifyLoop totalOvertimeToProcess processed ctx =
     (if processed < totalOvertimeToProcess
      then classifyLoop totalOvertimeToProcess (processed + 1) (classifyMinute ctx processed)
      else ctx)"
  by pat_completeness auto
termination
  by (relation "measure (\<lambda>(total, processed, ctx). nat (total - processed))") auto

declare classifyLoop.simps [simp del]

text \<open>
  \<^verbatim>\<open>
  const classifyAndAccumulateRule: DayRule = (ctx, next) => {
    if (ctx.dayOvertimeMinutes <= 0) { next(); return; }
    if (!ctx.isOvertimeCardEntry) {
      ctx.week.totalBancoHoras += ctx.dayOvertimeMinutes;
      ctx.grand.totalBancoHoras += ctx.dayOvertimeMinutes;
      next(); return;
    }
    const totalOvertimeToProcess = Math.round(ctx.dayOvertimeMinutes);
    let processed = 0;
    while (processed < totalOvertimeToProcess) { ... }
    next();
  };
  \<close>
  \<open>Math.round\<close> of the integer \<open>dayOvertimeMinutes\<close> is that integer.
\<close>

definition classifyAndAccumulateRule :: "DayRuleContext \<Rightarrow> DayRuleContext" where
  "classifyAndAccumulateRule ctx =
     (if dayOvertimeMinutes ctx \<le> 0 then ctx
      else if isOvertimeCardEntry ctx
      then classifyLoop (dayOvertimeMinutes ctx) 0 ctx
      else ctx\<lparr>week := (week ctx)\<lparr>totalBancoHoras :=
                               totalBancoHoras (week ctx) + dayOvertimeMinutes ctx\<rparr>,
               grand := (grand ctx)\<lparr>totalBancoHoras :=
                               totalBancoHoras (grand ctx) + dayOvertimeMinutes ctx\<rparr>\<rparr>)"

text \<open>
  \<open>composeRules\<close> runs the rules in order, each rule calling \<open>next()\<close> once as its last
  action, so the chain is the composition of the four rules.
\<close>

definition runDayRuleChain :: "DayRuleContext \<Rightarrow> DayRuleContext" where
  "runDayRuleChain ctx =
     classifyAndAccumulateRule (computeDayOvertimeRule (computeWorkedTimeRule (resolveJourneyRule ctx)))"

text \<open>
  The body of \<open>weekEntries.forEach\<close> in \<open>runOvertimeEngine\<close>: a fresh context is built
  for the entry around the week's totals and the grand totals, and the rule chain runs on
  it.
  \<^verbatim>\<open>
      const date = parseISO(entry.date);
      const ctx: DayRuleContext = {
        entry, settings, nightCutoffMinutes, week, grand,
        isSunday: isValid(date) ? date.getDay() === 0 : false,
        isOvertimeCardEntry: !!entry.isOvertimeCard,
        dailyJourneyMinutesEntry: 0, dailyTotalMinutes: 0, dayOvertimeMinutes: 0, dayEndMinutes: 0
      };
      runDayRuleChain(ctx);
  \<close>
\<close>

definition processWeekEntry ::
  "Settings \<Rightarrow> int \<Rightarrow> WeekContext \<times> MutableTotals \<Rightarrow> TimeEntry \<Rightarrow> WeekContext \<times> MutableTotals" where
  "processWeekEntry s nightCutoffMinutes_v wg e =
     (let ctx = \<lparr>entry = e, settings = s, nightCutoffMinutes = nightCutoffMinutes_v,
                 week = fst wg, grand = snd wg,
                 isSunday = (case parseISO (date e) of None \<Rightarrow> False | Some dt \<Rightarrow> getDay dt = 0),
                 isOvertimeCardEntry = isOvertimeCard e,
                 dailyJourneyMinutesEntry = 0, dailyTotalMinutes = 0, dayOvertimeMinutes = 0,
                 dayEndMinutes = 0\<rparr>;
          ctx1 = runDayRuleChain ctx
      in (week ctx1, grand ctx1))"

section \<open>Overtime engine: weeks and totals\<close>

text \<open>
  \<open>Array.prototype.sort\<close> is stable; it is modelled by insertion sort with the
  comparator's "not after" relation. \<open>a.localeCompare(b)\<close> is modelled on the engine's
  date strings, where it agrees with the order of the character codes.
\<close>

fun insert_by :: "('a \<Rightarrow> 'a \<Rightarrow> bool) \<Rightarrow> 'a \<Rightarrow> 'a list \<Rightarrow> 'a list" where
  "insert_by le x [] = [x]"
| "insert_by le x (y # ys) = (if le x y then x # y # ys else y # insert_by le x ys)"

definition sort_by :: "('a \<Rightarrow> 'a \<Rightarrow> bool) \<Rightarrow> 'a list \<Rightarrow> 'a list" where
  "sort_by le xs = foldr (insert_by le) xs []"

fun str_le :: "string \<Rightarrow> string \<Rightarrow> bool" where
  "str_le [] bs = True"
| "str_le (a # as) [] = False"
| "str_le (a # as) (b # bs) =
     (if a = b then str_le as bs else (of_char a :: nat) < of_char b)"

text \<open>
  \<^verbatim>\<open>
  export function normalizeOvernightEntries<T extends DatedPunchEntryLike>(entries: T[]): T[] {
    if (!Array.isArray(entries) || entries.length === 0) return entries;
    const cloned = entries.map((entry) => ({ ...entry })) as T[];
    const getDateKey = (entry) => String(entry.date || entry.workDate || '');
    const ordered = cloned.map((entry) => ({ entry }))
      .sort((a, b) => getDateKey(a.entry).localeCompare(getDateKey(b.entry)));
    for (let i = 0; i < ordered.length - 1; i++) {
      const current = ordered[i].entry;
      const next = ordered[i + 1].entry;
      pairs.forEach(([startKey, endKey]) => {
        const currentStart = normalizeClock(current[startKey]);
        const currentEnd = normalizeClock(current[endKey]);
        const nextStart = normalizeClock(next[startKey]);
        const nextEnd = normalizeClock(next[endKey]);
        if (currentStart && !currentEnd && !nextStart && nextEnd) {
          (current as any)[endKey] = nextEnd;
          (next as any)[endKey] = '';
        }
      });
    }
    return cloned;
  }
  \<close>
  The clones are mutated through \<open>ordered\<close> and returned in the order of \<open>entries\<close>:
  the model tags each entry with its position, sorts, runs the pass over neighbours and
  sorts back by position.
\<close>

definition getDateKey :: "TimeEntry \<Rightarrow> string" where
  "getDateKey e = (if date e \<noteq> [] then date e else workDate e)"

definition overnight_cond :: "string \<Rightarrow> string \<Rightarrow> string \<Rightarrow> string \<Rightarrow> bool" where
  "overnight_cond currentStart currentEnd nextStart nextEnd =
     (if currentStart = [] then False else if currentEnd \<noteq> [] then False
      else if nextStart \<noteq> [] then False else nextEnd \<noteq> [])"

definition overnight_pairs :: "TimeEntry \<times> TimeEntry \<Rightarrow> TimeEntry \<times> TimeEntry" where
  "overnight_pairs cn =
     (let cn1 = (if overnight_cond (normalizeClock (entry1 (fst cn))) (normalizeClock (exit1 (fst cn)))
                      (normalizeClock (entry1 (snd cn))) (normalizeClock (exit1 (snd cn)))
                 then ((fst cn)\<lparr>exit1 := normalizeClock (exit1 (snd cn))\<rparr>, (snd cn)\<lparr>exit1 := []\<rparr>)
                 else cn);
          cn2 = (if overnight_cond (normalizeClock (entry2 (fst cn1))) (normalizeClock (exit2 (fst cn1)))
                      (normalizeClock (entry2 (snd cn1))) (normalizeClock (exit2 (snd cn1)))
                 then ((fst cn1)\<lparr>exit2 := normalizeClock (exit2 (snd cn1))\<rparr>, (snd cn1)\<lparr>exit2 := []\<rparr>)
                 else cn1)
      in (if overnight_cond (normalizeClock (entryExtra (fst cn2))) (normalizeClock (exitExtra (fst cn2)))
               (normalizeClock (entryExtra (snd cn2))) (normalizeClock (exitExtra (snd cn2)))
          then ((fst cn2)\<lparr>exitExtra := normalizeClock (exitExtra (snd cn2))\<rparr>,
                (snd cn2)\<lparr>exitExtra := []\<rparr>)
          else cn2))"

fun overnight_pass :: "TimeEntry list \<Rightarrow> TimeEntry list" where
  "overnight_pass (c # n # rest) =
     (let cn = overnight_pairs (c, n) in fst cn # overnight_pass (snd cn # rest))"
| "overnight_pass xs = xs"

definition normalizeOvernightEntries :: "TimeEntry list \<Rightarrow> TimeEntry list" where
  "normalizeOvernightEntries entries =
     (if entries = [] then entries
      else (let tagged = zip [0..<length entries] entries;
                ordered = sort_by (\<lambda>a b. str_le (getDateKey (snd a)) (getDateKey (snd b))) tagged;
                passed = zip (map fst ordered) (overnight_pass (map snd ordered))
            in map snd (sort_by (\<lambda>a b. fst a \<le> fst b) passed)))"

text \<open>
  \<open>groupByCustomWeek\<close>: entries without a date or with an invalid date are left out; the
  key \<open>`${yyyy-MM}-W${weekIndex}`\<close> is modelled by the triple of year, month and week
  index, the groups come in the order in which their keys first occur, and
  \<open>runOvertimeEngine\<close> then sorts the keys with numeric collation, that is by year, month
  and week index.
\<close>

definition weekKeyOf :: "TimeEntry \<Rightarrow> (int \<times> int \<times> int) option" where
  "weekKeyOf e =
     (if date e = [] then None
      else (case parseISO (date e) of
              None \<Rightarrow> None
            | Some dt \<Rightarrow> Some (cyear dt, cmonth dt, customWeekIndex dt)))"

definition groupByCustomWeek :: "TimeEntry list \<Rightarrow> ((int \<times> int \<times> int) \<times> TimeEntry list) list" where
  "groupByCustomWeek entries =
     map (\<lambda>k. (k, filter (\<lambda>e. weekKeyOf e = Some k) entries))
       (rev (remdups (rev (List.map_filter weekKeyOf entries))))"

definition key_le :: "int \<times> int \<times> int \<Rightarrow> int \<times> int \<times> int \<Rightarrow> bool" where
  "key_le a b =
     (if fst a < fst b then True else if fst b < fst a then False
      else if fst (snd a) < fst (snd b) then True else if fst (snd b) < fst (snd a) then False
      else snd (snd a) \<le> snd (snd b))"

record RatePack =
  hourlyRate :: rat
  rate50 :: rat
  rate75 :: rat
  rate100 :: rat
  rate125 :: rat

definition buildRates :: "Settings \<Rightarrow> RatePack" where
  "buildRates s =
     (let hr = baseSalary s / (if monthlyHours s = 0 then 1 else monthlyHours s)
      in \<lparr>hourlyRate = hr,
          rate50 = hr * (1 + percent50 s / 100),
          rate75 = hr * (1 + (percent50 s + percentNight s) / 100),
          rate100 = hr * (1 + percent100 s / 100),
          rate125 = hr * (1 + (percent100 s + percentNight s) / 100)\<rparr>)"

text \<open>
  A weekly summary holds the week's minute totals and its first and last date. The result
  holds the summaries, the grand minute totals and the rates; the hour and money fields
  that the source derives from them with \<open>toFixed(2)\<close> are not modelled.
\<close>

record WeeklySummary = MutableTotals +
  weekStart :: string
  weekEnd :: string

record OvertimeComputationResult =
  weeklySummaries :: "WeeklySummary list"
  grandTotals :: MutableTotals
  rates :: RatePack

definition emptyTotals :: MutableTotals where
  "emptyTotals = \<lparr>total50Minutes = 0, total75Minutes = 0, total100Minutes = 0,
                   total125Minutes = 0, totalBancoHoras = 0\<rparr>"

definition emptyWeek :: WeekContext where
  "emptyWeek = \<lparr>total50Minutes = 0, total75Minutes = 0, total100Minutes = 0,
                 total125Minutes = 0, totalBancoHoras = 0, weekOvertimeAccumulator = 0\<rparr>"

text \<open>The body of \<open>sortedWeekKeys.forEach\<close>: one week, from a fresh week context.\<close>

definition processWeek ::
  "Settings \<Rightarrow> int \<Rightarrow> WeeklySummary list \<times> MutableTotals \<Rightarrow> TimeEntry list
     \<Rightarrow> WeeklySummary list \<times> MutableTotals" where
  "processWeek s nightCutoffMinutes_v sg groupEntries =
     (let weekEntries = sort_by (\<lambda>a b. str_le (date a) (date b)) groupEntries;
          wg = foldl (processWeekEntry s nightCutoffMinutes_v) (emptyWeek, snd sg) weekEntries;
          w = fst wg
      in (fst sg @
            [\<lparr>total50Minutes = total50Minutes w, total75Minutes = total75Minutes w,
              total100Minutes = total100Minutes w, total125Minutes = total125Minutes w,
              totalBancoHoras = totalBancoHoras w,
              weekStart = (case weekEntries of [] \<Rightarrow> [] | e # es \<Rightarrow> date e),
              weekEnd = (case rev weekEntries of [] \<Rightarrow> [] | e # es \<Rightarrow> date e)\<rparr>],
          snd wg))"

definition runOvertimeEngine :: "TimeEntry list \<Rightarrow> Settings \<Rightarrow> OvertimeComputationResult" where
  "runOvertimeEngine entries s =
     (let effectiveEntries = normalizeOvernightEntries entries;
          nightCutoffMinutes_v = timeToMinutes (or_default (nightCutoff s) ''22:00'');
          groupedWeeks = groupByCustomWeek effectiveEntries;
          sortedWeeks = sort_by (\<lambda>a b. key_le (fst a) (fst b)) groupedWeeks;
          sg = foldl (processWeek s nightCutoffMinutes_v) ([], emptyTotals) (map snd sortedWeeks)
      in \<lparr>weeklySummaries = fst sg, grandTotals = snd sg, rates = buildRates s\<rparr>)"

section \<open>The classification entry point\<close>

text \<open>
  \<^verbatim>\<open>
  export function calculateOvertime(entries: TimeEntry[], settings: Settings): OvertimeCalculationResult | null {
    if (!settings) throw new Error('Settings are required');
    if (!entries) return null;
    return runOvertimeEngine(entries, settings);
  }
  \<close>
  A \<open>null\<close> or \<open>undefined\<close> argument is \<open>None\<close>; the thrown error is the left
  summand, the returned value (\<open>null\<close> is \<open>None\<close>) the right one.
\<close>

datatype EngineError = SettingsRequired

definition calculateOvertime ::
  "TimeEntry list option \<Rightarrow> Settings option \<Rightarrow> EngineError + OvertimeComputationResult option" where
  "calculateOvertime entries s_opt =
     (case s_opt of
        None \<Rightarrow> Inl SettingsRequired
      | Some s \<Rightarrow>
          (case entries of
             None \<Rightarrow> Inr None
           | Some es \<Rightarrow> Inr (Some (runOvertimeEngine es s))))"

subsection \<open>The classification rule as the specification words it\<close>








subsection \<open>An example day\<close>

text \<open>
  A Monday on the overtime card, 21:58 to 22:01, with a night cutoff at 22:00 and a weekly
  cap of two minutes (1/30 hour): the three minutes fall into tiers 75, 50 and 100.
\<close>

definition example_day :: DayRuleContext where
  "example_day =
     \<lparr>entry = \<lparr>date = ''2026-04-06'', workDate = [], day = ''06'', entry1 = ''21:58'',
                exit1 = ''22:01'', entry2 = [], exit2 = [], entryExtra = [], exitExtra = [],
                totalHours = [], isDPAnnotation = False, isOvertimeCard = True\<rparr>,
      settings = \<lparr>baseSalary = 3000, monthlyHours = 220, dailyJourney = 8, weeklyLimit = 1 / 30,
                   nightCutoff = ''22:00'', percent50 = 50, percent100 = 100, percentNight = 25,
                   saturdayCompensation = False, compDays = [], cycleStartDay = 15,
                   workStart = [], lunchStart = [], lunchEnd = [], workEnd = [],
                   saturdayWorkStart = [], saturdayWorkEnd = []\<rparr>,
      nightCutoffMinutes = 1320,
      week = \<lparr>total50Minutes = 0, total75Minutes = 0, total100Minutes = 0, total125Minutes = 0,
               totalBancoHoras = 0, weekOvertimeAccumulator = 0\<rparr>,
      grand = \<lparr>total50Minutes = 0, total75Minutes = 0, total100Minutes = 0, total125Minutes = 0,
                totalBancoHoras = 0\<rparr>,
      isSunday = False, isOvertimeCardEntry = True, dailyJourneyMinutesEntry = 0,
      dailyTotalMinutes = 3, dayOvertimeMinutes = 3, dayEndMinutes = 1321\<rparr>"


section \<open>Holerith projection\<close>

text \<open>
  The payslip aggregates are minute counts. \<open>RateType\<close> is the source's union of the
  strings \<open>'50'\<close>, \<open>'75'\<close>, \<open>'100'\<close> and \<open>'125'\<close>. In \<open>Segment\<close> and \<open>SlotPlan\<close> the
  source's fields \<open>start\<close> and \<open>end\<close> carry a prefix here. A \<open>DayPlan\<close> refers to its
  row of the overtime card, which \<open>applySegmentsToRows\<close> mutates; the model keeps the
  row's content in the plan and writes it back to the card by the row's \<open>day\<close>, which is
  unique on a card. The plan's \<open>dateObj\<close> is represented by its \<open>dayOfWeek\<close> and
  \<open>weekKey\<close>.
\<close>

record ParsedHolerithPdfData =
  he50Minutes :: int
  he75Minutes :: int
  he100Minutes :: int
  he125Minutes :: int
  atrasoMinutes :: int

datatype RateType = Rate50 | Rate75 | Rate100 | Rate125

record Segment =
  seg_start :: int
  seg_end :: int

record SlotPlan =
  slot_start :: int
  slot_end :: int
  cursor :: int
  segments :: "Segment list"

record DayPlan =
  row :: TimeEntry
  dayOfWeek :: int
  weekKey :: string
  slots :: "SlotPlan list"

record ProjectionSummary =
  atrasoMinutesApplied :: int
  he50MinutesApplied :: int
  he75MinutesApplied :: int
  he100MinutesApplied :: int
  he125MinutesApplied :: int

record ProjectedCardFromHolerith =
  hours :: "TimeEntry list"
  he :: "TimeEntry list"
  summary :: ProjectionSummary
  warnings :: "string list"

definition blankRow :: "int \<Rightarrow> string \<Rightarrow> TimeEntry" where
  "blankRow d dateStr =
     \<lparr>date = dateStr, workDate = [], day = padStart0 2 (js_toString d),
      entry1 = [], exit1 = [], entry2 = [], exit2 = [], entryExtra = [], exitExtra = [],
      totalHours = [], isDPAnnotation = False, isOvertimeCard = False\<rparr>"

text \<open>
  \<^verbatim>\<open>
  function parseCompDays(compDaysRaw?: string): number[] {
    return (compDaysRaw || '1,2,3,4').split(',').map((item) => Number(item.trim()))
      .filter((n) => Number.isInteger(n) && n >= 0 && n <= 6);
  }
  \<close>
\<close>

definition parseCompDaysProjection :: "string \<Rightarrow> int list" where
  "parseCompDaysProjection compDaysRaw =
     filter (\<lambda>n. 0 \<le> n \<and> n \<le> 6)
       (List.map_filter (\<lambda>item. js_Number (js_trim item))
          (split_comma (or_default compDaysRaw ''1,2,3,4'')))"

definition isWeekday :: "int \<Rightarrow> bool" where
  "isWeekday dow = (dow \<ge> 1 \<and> dow \<le> 5)"

definition isSundayDow :: "int \<Rightarrow> bool" where
  "isSundayDow dow = (dow = 0)"

definition isSaturday :: "int \<Rightarrow> bool" where
  "isSaturday dow = (dow = 6)"

definition finalizeTotals :: "TimeEntry list \<Rightarrow> TimeEntry list" where
  "finalizeTotals rows = map (\<lambda>r. r\<lparr>totalHours := minutesToTime (sumEntryWorkedMinutes r)\<rparr>) rows"

definition isNightMinute :: "int \<Rightarrow> int \<Rightarrow> bool" where
  "isNightMinute minuteOfDay nightCutoffMinutes_v =
     (minuteOfDay \<ge> nightCutoffMinutes_v \<or> minuteOfDay < 5 * 60)"

text \<open>
  \<^verbatim>\<open>
  function classifyMinuteRateType(params): RateType {
    const night = isNightMinute(minuteOfDay, nightCutoffMinutes);
    if (dayOfWeek === 0) return night ? '125' : '100';
    const withinLimit = weeklyLimitMinutes > 0 ? weekAccumulator < weeklyLimitMinutes : true;
    if (withinLimit) return night ? '75' : '50';
    return night ? '125' : '100';
  }
  \<close>
\<close>

definition classifyMinuteRateType :: "int \<Rightarrow> int \<Rightarrow> int \<Rightarrow> int \<Rightarrow> int \<Rightarrow> RateType" where
  "classifyMinuteRateType dow minuteOfDay weekAcc weeklyLimitMinutes nightCutoffMinutes_v =
     (let night = isNightMinute minuteOfDay nightCutoffMinutes_v
      in if dow = 0 then (if night then Rate125 else Rate100)
         else (let withinLimit = (if weeklyLimitMinutes > 0 then weekAcc < weeklyLimitMinutes else True)
               in if withinLimit then (if night then Rate75 else Rate50)
                  else (if night then Rate125 else Rate100)))"

text \<open>
  \<^verbatim>\<open>
  function addMinuteToSlot(slot: SlotPlan, minute: number) {
    const last = slot.segments[slot.segments.length - 1];
    if (last && last.end === minute) last.end = minute + 1;
    else slot.segments.push({ start: minute, end: minute + 1 });
  }
  \<close>
\<close>

definition addMinuteToSlot :: "SlotPlan \<Rightarrow> int \<Rightarrow> SlotPlan" where
  "addMinuteToSlot slot minute =
     (case rev (segments slot) of
        [] \<Rightarrow> slot\<lparr>segments := [\<lparr>seg_start = minute, seg_end = minute + 1\<rparr>]\<rparr>
      | lst # earlier \<Rightarrow>
          if seg_end lst = minute
          then slot\<lparr>segments := rev earlier @ [lst\<lparr>seg_end := minute + 1\<rparr>]\<rparr>
          else slot\<lparr>segments := segments slot @ [\<lparr>seg_start = minute, seg_end = minute + 1\<rparr>]\<rparr>)"

text \<open>
  \<open>buildDayPlans\<close>: one plan per row with a valid date; a Sunday has a day window
  08:00 to 18:00 and a night window of four hours from \<open>max (22:00) nightStart\<close>, any
  other day a window of two hours before the shift and one of six hours after it.
\<close>

definition buildDayPlan :: "Settings \<Rightarrow> TimeEntry \<Rightarrow> DayPlan option" where
  "buildDayPlan s r =
     (let workStartMin = timeToMinutes (or_default (workStart s) ''12:00'');
          workEndMin = timeToMinutes (or_default (workEnd s) ''21:00'');
          saturdayStartMin = timeToMinutes (or_default (saturdayWorkStart s) ''12:00'');
          saturdayEndMin = timeToMinutes (or_default (saturdayWorkEnd s) ''16:00'');
          nightStartMin = max 0 (timeToMinutes (or_default (nightCutoff s) ''22:00''))
      in case parseISO (date r) of
           None \<Rightarrow> None
         | Some dateObj \<Rightarrow>
             (let dow = getDay dateObj;
                  wk = getCustomWeekKey dateObj;
                  slots_v =
                    (if isSundayDow dow
                     then (let sundayDayStart = 8 * 60;
                               sundayDayEnd = 18 * 60;
                               sundayNightStart = max (22 * 60) nightStartMin;
                               sundayNightEnd = sundayNightStart + 240
                           in [\<lparr>slot_start = sundayDayStart, slot_end = sundayDayEnd,
                                 cursor = sundayDayStart, segments = []\<rparr>,
                               \<lparr>slot_start = sundayNightStart, slot_end = sundayNightEnd,
                                 cursor = sundayNightStart, segments = []\<rparr>])
                     else (let baseStart = (if isSaturday dow \<and> \<not> saturdayCompensation s
                                            then saturdayStartMin else workStartMin);
                               baseEnd = (if isSaturday dow \<and> \<not> saturdayCompensation s
                                          then saturdayEndMin else workEndMin);
                               beforeStart = max 0 (baseStart - 120);
                               beforeEnd = baseStart;
                               afterStart = baseEnd;
                               afterEnd = baseEnd + 360
                           in [\<lparr>slot_start = beforeStart, slot_end = beforeEnd,
                                 cursor = beforeStart, segments = []\<rparr>,
                               \<lparr>slot_start = afterStart, slot_end = afterEnd,
                                 cursor = afterStart, segments = []\<rparr>]))
              in Some \<lparr>row = r, dayOfWeek = dow, weekKey = wk, slots = slots_v\<rparr>))"

definition buildDayPlans :: "TimeEntry list \<Rightarrow> Settings \<Rightarrow> DayPlan list" where
  "buildDayPlans rows s = List.map_filter (buildDayPlan s) rows"

text \<open>
  \<open>allocateTypeMinutes\<close>, innermost loop, on one slot:
  \<^verbatim>\<open>
      while (slot.cursor < slot.end && remaining > 0) {
        const minuteOfDay = ((slot.cursor % (24 * 60)) + (24 * 60)) % (24 * 60);
        const currentWeekAcc = weekAccumulator.get(dayPlan.weekKey) || 0;
        const predictedType = classifyMinuteRateType({...});
        if (predictedType !== targetType) break;
        addMinuteToSlot(slot, slot.cursor);
        slot.cursor += 1;
        remaining -= 1;
        if (!isSunday(dayPlan.dayOfWeek)) weekAccumulator.set(dayPlan.weekKey, currentWeekAcc + 1);
      }
  \<close>
  The state of the loops is the slot, \<open>remaining\<close> and the \<open>weekAccumulator\<close> map.
\<close>

record AllocParams =
  targetType :: RateType
  weeklyLimitMinutes :: int
  allocNightCutoff :: int
  sundayOnly :: bool
  nonSundayOnly :: bool

function allocateSlot ::
  "AllocParams \<Rightarrow> int \<Rightarrow> string \<Rightarrow> SlotPlan \<Rightarrow> int \<Rightarrow> (string \<rightharpoonup> int)
     \<Rightarrow> SlotPlan \<times> int \<times> (string \<rightharpoonup> int)" where
  "allocateSlot ap dow wk slot remaining weekAcc =
     (if cursor slot < slot_end slot \<and> remaining > 0
      then (let minuteOfDay = js_rem (js_rem (cursor slot) (24 * 60) + 24 * 60) (24 * 60);
                currentWeekAcc = (case weekAcc wk of None \<Rightarrow> 0 | Some v \<Rightarrow> v);
                predictedType = classifyMinuteRateType dow minuteOfDay currentWeekAcc
                                  (weeklyLimitMinutes ap) (allocNightCutoff ap)
            in if predictedType \<noteq> targetType ap then (slot, remaining, weekAcc)
               else allocateSlot ap dow wk
                      ((addMinuteToSlot slot (cursor slot))\<lparr>cursor := cursor slot + 1\<rparr>)
                      (remaining - 1)
                      (if isSundayDow dow then weekAcc else weekAcc(wk \<mapsto> currentWeekAcc + 1)))
      else (slot, remaining, weekAcc))"
  by pat_completeness auto
termination
  by (relation "measure (\<lambda>(ap, dow, wk, slot, remaining, weekAcc). nat (slot_end slot - cursor slot))")
     (auto simp: addMinuteToSlot_def split: list.splits)

declare allocateSlot.simps [simp del]

text \<open>\<^verbatim>\<open>for (const slot of dayPlan.slots) { if (remaining <= 0) break; while ... }\<close>\<close>

fun allocateSlots ::
  "AllocParams \<Rightarrow> int \<Rightarrow> string \<Rightarrow> SlotPlan list \<Rightarrow> int \<Rightarrow> (string \<rightharpoonup> int)
     \<Rightarrow> SlotPlan list \<times> int \<times> (string \<rightharpoonup> int)" where
  "allocateSlots ap dow wk [] remaining weekAcc = ([], remaining, weekAcc)"
| "allocateSlots ap dow wk (slot # rest) remaining weekAcc =
     (if remaining \<le> 0 then (slot # rest, remaining, weekAcc)
      else (let r1 = allocateSlot ap dow wk slot remaining weekAcc;
                r2 = allocateSlots ap dow wk rest (fst (snd r1)) (snd (snd r1))
            in (fst r1 # fst r2, snd r2)))"

text \<open>
  \<^verbatim>\<open>
  for (const dayPlan of dayPlans) {
    if (remaining <= 0) break;
    if (sundayOnly && dayPlan.dayOfWeek !== 0) continue;
    if (nonSundayOnly && dayPlan.dayOfWeek === 0) continue;
    for (const slot of dayPlan.slots) ...
  }
  \<close>
\<close>

fun allocateDays ::
  "AllocParams \<Rightarrow> DayPlan list \<Rightarrow> int \<Rightarrow> (string \<rightharpoonup> int)
     \<Rightarrow> DayPlan list \<times> int \<times> (string \<rightharpoonup> int)" where
  "allocateDays ap [] remaining weekAcc = ([], remaining, weekAcc)"
| "allocateDays ap (dayPlan # rest) remaining weekAcc =
     (if remaining \<le> 0 then (dayPlan # rest, remaining, weekAcc)
      else if sundayOnly ap \<and> dayOfWeek dayPlan \<noteq> 0
      then (let r2 = allocateDays ap rest remaining weekAcc in (dayPlan # fst r2, snd r2))
      else if nonSundayOnly ap \<and> dayOfWeek dayPlan = 0
      then (let r2 = allocateDays ap rest remaining weekAcc in (dayPlan # fst r2, snd r2))
      else (let r1 = allocateSlots ap (dayOfWeek dayPlan) (weekKey dayPlan) (slots dayPlan)
                       remaining weekAcc;
                r2 = allocateDays ap rest (fst (snd r1)) (snd (snd r1))
            in (dayPlan\<lparr>slots := fst r1\<rparr> # fst r2, snd r2)))"

text \<open>
  \<^verbatim>\<open>
  let remaining = Math.max(0, Math.round(targetMinutes));
  ...
  return Math.max(0, Math.round(targetMinutes) - remaining);
  \<close>
  The result is the applied minutes with the mutated plans and accumulator map.
\<close>

definition allocateTypeMinutes ::
  "AllocParams \<Rightarrow> int \<Rightarrow> DayPlan list \<Rightarrow> (string \<rightharpoonup> int)
     \<Rightarrow> int \<times> DayPlan list \<times> (string \<rightharpoonup> int)" where
  "allocateTypeMinutes ap targetMinutes dayPlans weekAcc =
     (let remaining0 = max 0 targetMinutes;
          r = allocateDays ap dayPlans remaining0 weekAcc
      in (max 0 (targetMinutes - fst (snd r)), fst r, snd (snd r)))"

text \<open>
  \<open>applySegmentsToRows\<close>, for one plan: the segments of its slots are sorted by start,
  overlapping or touching ones are merged, more than three are consolidated into three
  with a warning, and the first three are written to the row's punch pairs.
  \<^verbatim>\<open>
    const mergedSegments = dayPlan.slots.flatMap((slot) => slot.segments).sort((a, b) => a.start - b.start);
    const compacted: Segment[] = [];
    mergedSegments.forEach((segment) => {
      const last = compacted[compacted.length - 1];
      if (last && last.end >= segment.start) last.end = Math.max(last.end, segment.end);
      else compacted.push({ ...segment });
    });
    if (compacted.length > 3) {
      warnings.push(`Dia ${dayPlan.row.day}: excesso de periodos previstos; consolidado em 3 batidas.`);
      const first = compacted[0]; const second = compacted[1];
      const third = { start: compacted[2].start, end: compacted[compacted.length - 1].end };
      compacted.splice(0, compacted.length, first, second, third);
    }
    fields.forEach(([startKey, endKey], index) => {
      const segment = compacted[index];
      if (!segment) return;
      dayPlan.row[startKey] = formatClock(segment.start);
      dayPlan.row[endKey] = formatClock(segment.end);
    });
  \<close>
\<close>

definition compactSegment :: "Segment list \<Rightarrow> Segment \<Rightarrow> Segment list" where
  "compactSegment compacted segment =
     (case rev compacted of
        [] \<Rightarrow> [segment]
      | lst # earlier \<Rightarrow>
          if seg_end lst \<ge> seg_start segment
          then rev earlier @ [lst\<lparr>seg_end := max (seg_end lst) (seg_end segment)\<rparr>]
          else compacted @ [segment])"

definition consolidateSegments :: "Segment list \<Rightarrow> Segment list" where
  "consolidateSegments compacted =
     (case compacted of
        first # second # third # rest \<Rightarrow>
          [first, second, \<lparr>seg_start = seg_start third, seg_end = seg_end (last compacted)\<rparr>]
      | _ \<Rightarrow> compacted)"

definition writeSegments :: "Segment list \<Rightarrow> TimeEntry \<Rightarrow> TimeEntry" where
  "writeSegments compacted r =
     (let r1 = (case compacted of
                  a # _ \<Rightarrow> r\<lparr>entry1 := formatClock (seg_start a), exit1 := formatClock (seg_end a)\<rparr>
                | _ \<Rightarrow> r);
          r2 = (case compacted of
                  _ # b # _ \<Rightarrow> r1\<lparr>entry2 := formatClock (seg_start b), exit2 := formatClock (seg_end b)\<rparr>
                | _ \<Rightarrow> r1)
      in (case compacted of
            _ # _ # c # _ \<Rightarrow> r2\<lparr>entryExtra := formatClock (seg_start c),
                                  exitExtra := formatClock (seg_end c)\<rparr>
          | _ \<Rightarrow> r2))"

definition applySegmentsToRow :: "DayPlan \<Rightarrow> DayPlan \<times> string list" where
  "applySegmentsToRow dayPlan =
     (let mergedSegments = sort_by (\<lambda>a b. seg_start a \<le> seg_start b)
                             (concat (map segments (slots dayPlan)));
          compacted = foldl compactSegment [] mergedSegments
      in if length compacted > 3
         then (dayPlan\<lparr>row := writeSegments (consolidateSegments compacted) (row dayPlan)\<rparr>,
               [''Dia '' @ day (row dayPlan) @
                '': excesso de periodos previstos; consolidado em 3 batidas.''])
         else (dayPlan\<lparr>row := writeSegments compacted (row dayPlan)\<rparr>, []))"

definition applySegmentsToRows :: "DayPlan list \<Rightarrow> DayPlan list \<times> string list" where
  "applySegmentsToRows dayPlans =
     (let rs = map applySegmentsToRow dayPlans in (map fst rs, concat (map snd rs)))"

text \<open>
  The baseline normal-card row and the blank overtime-card row of card line \<open>d\<close>
  (the body of \<open>for (let day = 1; day <= 31; day++)\<close>).
\<close>

definition projectionRowPair :: "Settings \<Rightarrow> int \<Rightarrow> int \<Rightarrow> int \<Rightarrow> TimeEntry \<times> TimeEntry" where
  "projectionRowPair s referenceMonthNumber referenceYear d =
     (let cycleStartDay_v = (if cycleStartDay s = 0 then 15 else cycleStartDay s);
          compDays_v = parseCompDaysProjection (compDays s);
          workStartMin = timeToMinutes (or_default (workStart s) ''12:00'');
          lunchStartMin = timeToMinutes (or_default (lunchStart s) ''17:00'');
          lunchEndMin = timeToMinutes (or_default (lunchEnd s) ''18:00'');
          workEndMin = timeToMinutes (or_default (workEnd s) ''21:00'');
          saturdayStartMin = timeToMinutes (or_default (saturdayWorkStart s) ''12:00'');
          saturdayEndMin = timeToMinutes (or_default (saturdayWorkEnd s) ''16:00'');
          dateStr = resolveWorkDateByCompetenciaDay d referenceMonthNumber referenceYear cycleStartDay_v;
          dow = (case parseISO dateStr of None \<Rightarrow> - 1 | Some dateObj \<Rightarrow> getDay dateObj);
          normal0 = blankRow d dateStr;
          normal =
            (if isWeekday dow
             then (let adjustedWorkEnd = (if saturdayCompensation s \<and> dow \<in> set compDays_v
                                          then workEndMin + 60 else workEndMin)
                   in normal0\<lparr>entry1 := formatClock workStartMin, exit1 := formatClock lunchStartMin,
                              entry2 := formatClock lunchEndMin, exit2 := formatClock adjustedWorkEnd\<rparr>)
             else if isSaturday dow \<and> \<not> saturdayCompensation s
             then normal0\<lparr>entry1 := formatClock saturdayStartMin, exit1 := formatClock saturdayEndMin\<rparr>
             else normal0)
      in (normal, blankRow d dateStr))"

text \<open>
  The lateness loop over the candidate rows (weekdays with a second period):
  \<^verbatim>\<open>
  for (const row of atrasoCandidates) {
    if (atrasoRemaining <= 0) break;
    const start = timeToMinutes(row.entry2);
    const end = timeToMinutes(row.exit2);
    const available = Math.max(0, end - start);
    if (available <= 0) continue;
    const cut = Math.min(60, available, atrasoRemaining);
    row.exit2 = formatClock(end - cut);
    row.isDPAnnotation = false;
    atrasoRemaining -= cut;
    atrasoMinutesApplied += cut;
  }
  \<close>
  The state is \<open>(atrasoRemaining, atrasoMinutesApplied)\<close>; rows that are not candidates
  are passed over unchanged.
\<close>

definition isAtrasoCandidate :: "TimeEntry \<Rightarrow> bool" where
  "isAtrasoCandidate r =
     (case parseISO (date r) of
        None \<Rightarrow> False
      | Some dateObj \<Rightarrow> isWeekday (getDay dateObj) \<and> entry2 r \<noteq> [] \<and> exit2 r \<noteq> [])"

fun distributeAtraso :: "TimeEntry list \<Rightarrow> int \<times> int \<Rightarrow> TimeEntry list \<times> int \<times> int" where
  "distributeAtraso [] st = ([], st)"
| "distributeAtraso (r # rest) (atrasoRemaining, applied) =
     (if atrasoRemaining \<le> 0 then (r # rest, atrasoRemaining, applied)
      else if isAtrasoCandidate r
      then (let start = timeToMinutes (entry2 r);
                end_v = timeToMinutes (exit2 r);
                available = max 0 (end_v - start)
            in if available \<le> 0
               then (let res = distributeAtraso rest (atrasoRemaining, applied) in (r # fst res, snd res))
               else (let cut = min (min 60 available) atrasoRemaining;
                         res = distributeAtraso rest (atrasoRemaining - cut, applied + cut)
                     in (r\<lparr>exit2 := formatClock (end_v - cut), isDPAnnotation := False\<rparr> # fst res,
                         snd res)))
      else (let res = distributeAtraso rest (atrasoRemaining, applied) in (r # fst res, snd res)))"

text \<open>
  \<open>buildProjectedCardFromHolerith\<close>. The parameter \<open>referenceMonth\<close> is the text
  \<open>YYYY-MM\<close>, which the source splits at the dash and reads with \<open>Number\<close>; the model
  takes the two numbers. The six allocation passes thread the plans and the accumulator
  map: Sunday 125, Sunday 100, then 75 and 50 on other days, then what is left of 125 and
  100 on other days.
\<close>

definition shortfallWarning :: "string \<Rightarrow> int \<Rightarrow> string" where
  "shortfallWarning label missing =
     ''HE '' @ label @ ''% restante nao alocada: '' @ minutesToTime missing @ ''.''"

definition buildProjectedCardFromHolerith ::
  "int \<Rightarrow> int \<Rightarrow> Settings \<Rightarrow> ParsedHolerithPdfData \<Rightarrow> ProjectedCardFromHolerith" where
  "buildProjectedCardFromHolerith referenceYear referenceMonthNumber s parsed =
     (let pairs = map (projectionRowPair s referenceMonthNumber referenceYear) (map int [1..<32]);
          normalRows0 = map fst pairs;
          overtimeRows = map snd pairs;
          la = distributeAtraso normalRows0 (max 0 (atrasoMinutes parsed), 0);
          normalRows = fst la;
          atrasoRemaining = fst (snd la);
          atrasoApplied = snd (snd la);
          warnings0 = (if atrasoRemaining > 0
                       then [''Nao foi possivel distribuir '' @ minutesToTime atrasoRemaining @
                             '' de atraso no cartao normal.'']
                       else []);
          dayPlans0 = sort_by (\<lambda>a b. str_le (date (row a)) (date (row b))) (buildDayPlans overtimeRows s);
          weeklyLimitMinutes_v = max 0 (js_round (weeklyLimit s * 60));
          nightCutoffMinutes_v = max 0 (timeToMinutes (or_default (nightCutoff s) ''22:00''));
          ap = (\<lambda>t so nso. \<lparr>targetType = t, weeklyLimitMinutes = weeklyLimitMinutes_v,
                              allocNightCutoff = nightCutoffMinutes_v, sundayOnly = so,
                              nonSundayOnly = nso\<rparr>);
          a1 = allocateTypeMinutes (ap Rate125 True False) (he125Minutes parsed) dayPlans0 Map.empty;
          sunday125 = fst a1;
          a2 = allocateTypeMinutes (ap Rate100 True False) (he100Minutes parsed) (fst (snd a1)) (snd (snd a1));
          sunday100 = fst a2;
          a3 = allocateTypeMinutes (ap Rate75 False True) (he75Minutes parsed) (fst (snd a2)) (snd (snd a2));
          he75Applied = fst a3;
          a4 = allocateTypeMinutes (ap Rate50 False True) (he50Minutes parsed) (fst (snd a3)) (snd (snd a3));
          he50Applied = fst a4;
          nonSunday125Needed = max 0 (he125Minutes parsed - sunday125);
          nonSunday100Needed = max 0 (he100Minutes parsed - sunday100);
          a5 = allocateTypeMinutes (ap Rate125 False True) nonSunday125Needed (fst (snd a4)) (snd (snd a4));
          nonSunday125Applied = fst a5;
          a6 = allocateTypeMinutes (ap Rate100 False True) nonSunday100Needed (fst (snd a5)) (snd (snd a5));
          nonSunday100Applied = fst a6;
          he125Applied = sunday125 + nonSunday125Applied;
          he100Applied = sunday100 + nonSunday100Applied;
          missing50 = max 0 (he50Minutes parsed - he50Applied);
          missing75 = max 0 (he75Minutes parsed - he75Applied);
          missing100 = max 0 (he100Minutes parsed - he100Applied);
          missing125 = max 0 (he125Minutes parsed - he125Applied);
          warnings1 = warnings0
            @ (if missing50 > 0 then [shortfallWarning ''50'' missing50] else [])
            @ (if missing75 > 0 then [shortfallWarning ''75'' missing75] else [])
            @ (if missing100 > 0 then [shortfallWarning ''100'' missing100] else [])
            @ (if missing125 > 0 then [shortfallWarning ''125'' missing125] else []);
          applied = applySegmentsToRows (fst (snd a6));
          overtimeRows1 = map (\<lambda>r. case find (\<lambda>p. day (row p) = day r) (fst applied) of
                                      None \<Rightarrow> r | Some p \<Rightarrow> row p) overtimeRows
      in \<lparr>hours = finalizeTotals normalRows,
          he = finalizeTotals overtimeRows1,
          summary = \<lparr>atrasoMinutesApplied = atrasoApplied, he50MinutesApplied = he50Applied,
                     he75MinutesApplied = he75Applied, he100MinutesApplied = he100Applied,
                     he125MinutesApplied = he125Applied\<rparr>,
          warnings = warnings1 @ snd applied\<rparr>)"

text \<open>
  Feeding a projected overtime card back to the classifier: the application marks the
  rows of the overtime card with \<open>isOvertimeCard: true\<close> and calls the engine on them.
\<close>

definition reclassifyProjection :: "Settings \<Rightarrow> ProjectedCardFromHolerith \<Rightarrow> MutableTotals" where
  "reclassifyProjection s projected =
     grandTotals (runOvertimeEngine (map (\<lambda>r. r\<lparr>isOvertimeCard := True\<rparr>) (he projected)) s)"

text \<open>
  The warnings of a result that report the shortfall of one tier, recognised by the first
  six characters of the text (\<open>HE 50%\<close>, \<open>HE 75%\<close>, \<open>HE 100\<close>, \<open>HE 125\<close>).
\<close>

definition tier_warnings :: "string \<Rightarrow> string list \<Rightarrow> string list" where
  "tier_warnings pre ws = filter (\<lambda>w. take 6 w = pre) ws"

section \<open>Clock arithmetic: formatting and parsing\<close>

lemma digit_val_digit_char: "d < 10 \<Longrightarrow> digit_val (digit_char d) = d"
proof -
  assume "d < 10"
  then have "d \<in> {0, 1, 2, 3, 4, 5, 6, 7, 8, 9}" by auto
  then show ?thesis
    by (auto simp: digit_char_def digit_chars_def digit_val_def)
qed

lemma is_digit_digit_char: "d < 10 \<Longrightarrow> is_digit (digit_char d)"
  unfolding is_digit_def digit_char_def by (rule nth_mem) (simp add: digit_chars_def)

lemma colon_not_digit: "is_digit c \<Longrightarrow> c \<noteq> CHR '':''"
  by (auto simp: is_digit_def digit_chars_def)

lemma show_nat_digits: "list_all is_digit (show_nat n)"
proof (induction n rule: show_nat.induct)
  case (1 n)
  show ?case
  proof (cases "n < 10")
    case True
    then show ?thesis by (simp add: show_nat.simps [of n] is_digit_digit_char)
  next
    case False
    with 1 show ?thesis by (simp add: show_nat.simps [of n] is_digit_digit_char)
  qed
qed

lemma show_nat_nonempty: "show_nat n \<noteq> []"
  by (subst show_nat.simps) simp

lemma read_nat_snoc: "read_nat (s @ [c]) = 10 * read_nat s + digit_val c"
  by (simp add: read_nat_def)

lemma read_nat_show_nat: "read_nat (show_nat n) = n"
proof (induction n rule: show_nat.induct)
  case (1 n)
  show ?case
  proof (cases "n < 10")
    case True
    then show ?thesis by (simp add: show_nat.simps [of n] read_nat_def digit_val_digit_char)
  next
    case False
    with 1 have "read_nat (show_nat (n div 10)) = n div 10" by simp
    with False show ?thesis
      by (simp add: show_nat.simps [of n] read_nat_snoc digit_val_digit_char)
  qed
qed

lemma read_nat_zeros: "read_nat (replicate k CHR ''0'' @ s) = read_nat s"
proof -
  have "foldl (\<lambda>a c. 10 * a + digit_val c) 0 (replicate k CHR ''0'') = 0"
    by (induction k) (simp_all add: digit_val_def digit_chars_def)
  then show ?thesis by (simp add: read_nat_def)
qed

lemma is_digit_zero: "is_digit CHR ''0''"
  by (simp add: is_digit_def digit_chars_def)

lemma digit_not_space: "is_digit c \<Longrightarrow> \<not> is_space c"
  by (auto simp: is_digit_def is_space_def digit_chars_def)

lemma js_trim_digits: "list_all is_digit s \<Longrightarrow> js_trim s = s"
proof -
  assume d: "list_all is_digit s"
  have a: "dropWhile is_space t = t" if "list_all is_digit t" for t
    using that by (cases t) (auto simp: digit_not_space)
  from d have "list_all is_digit (rev s)" by (simp add: list_all_iff)
  with d show ?thesis by (simp add: js_trim_def a)
qed

lemma padded_digits: "list_all is_digit (padStart0 k (show_nat n))"
  using show_nat_digits [of n] by (auto simp: padStart0_def list_all_iff is_digit_zero)

lemma js_Number_padded: "js_Number (padStart0 k (show_nat n)) = Some (int n)"
proof -
  have "padStart0 k (show_nat n) \<noteq> []" by (simp add: padStart0_def show_nat_nonempty)
  moreover have "read_nat (padStart0 k (show_nat n)) = n"
    by (simp add: padStart0_def read_nat_zeros read_nat_show_nat)
  ultimately show ?thesis by (simp add: js_Number_def padded_digits js_trim_digits)
qed

lemma padded_no_colon: "CHR '':'' \<notin> set (padStart0 k (show_nat n))"
  using show_nat_digits [of n] colon_not_digit
  by (auto simp: padStart0_def list_all_iff)

lemma split_colon_no_colon: "CHR '':'' \<notin> set s \<Longrightarrow> split_colon s = [s]"
  by (induction s) auto

lemma split_colon_append:
  "CHR '':'' \<notin> set a \<Longrightarrow> split_colon (a @ CHR '':'' # b) = a # split_colon b"
  by (induction a) auto

lemma timeToMinutes_clock:
  "timeToMinutes (padStart0 j (show_nat h) @ '':'' @ padStart0 k (show_nat m)) = int h * 60 + int m"
proof -
  have "split_colon (padStart0 j (show_nat h) @ '':'' @ padStart0 k (show_nat m))
        = [padStart0 j (show_nat h), padStart0 k (show_nat m)]"
    using split_colon_append [OF padded_no_colon] split_colon_no_colon [OF padded_no_colon]
    by simp
  then show ?thesis
    by (simp add: timeToMinutes_def js_Number_padded)
qed

lemma js_rem_nonneg: "0 \<le> a \<Longrightarrow> js_rem a b = a mod b"
  by (simp add: js_rem_def minus_mult_div_eq_mod)

lemma js_rem_bounds: "0 < b \<Longrightarrow> - b < js_rem a b \<and> js_rem a b < b"
proof -
  assume b: "0 < b"
  show ?thesis
  proof (cases "0 \<le> a")
    case True
    with b show ?thesis
      using pos_mod_bound [of b a] pos_mod_sign [of b a] by (simp add: js_rem_nonneg del: pos_mod_sign pos_mod_bound)
  next
    case False
    then have "js_rem a b = - ((- a) mod b)"
      by (simp add: js_rem_def algebra_simps minus_mult_div_eq_mod [symmetric])
    with b show ?thesis
      using pos_mod_bound [of b "- a"] pos_mod_sign [of b "- a"] by linarith
  qed
qed

lemma js_rem_cong: "0 < b \<Longrightarrow> js_rem a b mod b = a mod b"
proof (cases "0 \<le> a")
  case True
  then show ?thesis by (simp add: js_rem_nonneg)
next
  case False
  then have "js_rem a b = a - b * (- ((- a) div b))" by (simp add: js_rem_def)
  then show ?thesis by (simp add: algebra_simps)
qed

lemma formatClock_value: "js_rem (js_rem t 1440 + 1440) 1440 = t mod 1440"
proof -
  have "0 \<le> js_rem t 1440 + 1440" using js_rem_bounds [of 1440 t] by simp
  then have "js_rem (js_rem t 1440 + 1440) 1440 = (js_rem t 1440 + 1440) mod 1440"
    by (rule js_rem_nonneg)
  also have "\<dots> = js_rem t 1440 mod 1440" by simp
  also have "\<dots> = t mod 1440" by (rule js_rem_cong) simp
  finally show ?thesis .
qed

lemma formatClock_eq:
  "formatClock t =
     padStart0 2 (show_nat (nat (t mod 1440 div 60))) @ '':'' @
     padStart0 2 (show_nat (nat (t mod 1440 mod 60)))"
proof -
  have v: "0 \<le> t mod 1440" by simp
  then have "\<not> t mod 1440 div 60 < 0" "\<not> t mod 1440 mod 60 < 0"
    by (simp_all add: pos_imp_zdiv_nonneg_iff not_less)
  then show ?thesis
    by (simp add: formatClock_def formatClock_value js_toString_def js_rem_nonneg v Let_def)
qed

lemma minutesToTime_eq:
  "0 \<le> t \<Longrightarrow> minutesToTime t =
     padStart0 2 (show_nat (nat (t div 60))) @ '':'' @ padStart0 2 (show_nat (nat (t mod 60)))"
proof -
  assume t: "0 \<le> t"
  then have "\<not> t div 60 < 0" "\<not> t mod 60 < 0"
    by (simp_all add: pos_imp_zdiv_nonneg_iff not_less)
  with t show ?thesis
    by (simp add: minutesToTime_def js_toString_def js_rem_nonneg Let_def)
qed

lemma length_show_nat_small: "n < 100 \<Longrightarrow> length (padStart0 2 (show_nat n)) = 2"
proof -
  assume n: "n < 100"
  show ?thesis
  proof (cases "n < 10")
    case True
    then show ?thesis by (simp add: show_nat.simps [of n] padStart0_def)
  next
    case False
    with n have "n div 10 < 10" by simp
    with False show ?thesis
      by (simp add: show_nat.simps [of n] show_nat.simps [of "n div 10"] padStart0_def)
  qed
qed

lemma formatClock_roundtrip: "timeToMinutes (formatClock t) = t mod 1440"
proof -
  have v: "0 \<le> t mod 1440" by simp
  have "timeToMinutes (formatClock t) = int (nat (t mod 1440 div 60)) * 60 + int (nat (t mod 1440 mod 60))"
    unfolding formatClock_eq by (rule timeToMinutes_clock)
  also have "\<dots> = t mod 1440 div 60 * 60 + t mod 1440 mod 60"
    using v by (simp add: pos_imp_zdiv_nonneg_iff)
  finally show ?thesis by simp
qed

lemma minutesToTime_roundtrip: "0 \<le> t \<Longrightarrow> timeToMinutes (minutesToTime t) = t"
proof -
  assume t: "0 \<le> t"
  have "timeToMinutes (minutesToTime t) = int (nat (t div 60)) * 60 + int (nat (t mod 60))"
    unfolding minutesToTime_eq [OF t] by (rule timeToMinutes_clock)
  also have "\<dots> = t div 60 * 60 + t mod 60"
    using t by (simp add: pos_imp_zdiv_nonneg_iff)
  finally show ?thesis by simp
qed

text \<open>
  C9 (as stated, refuted for \<open>minutesToTime\<close>): the claim says the minutes-to-clock
  formatter reduces the minute count modulo 1440. \<open>minutesToTime\<close> does not: 1500
  minutes are formatted as \<open>25:00\<close>, and parsing that gives 1500, not 60.
\<close>

theorem minutesToTime_not_mod_1440:
  "minutesToTime 1500 = ''25:00'' \<and> timeToMinutes (minutesToTime 1500) \<noteq> 1500 mod 1440"
proof -
  have a: "minutesToTime 1500 = ''25:00''"
    by (simp add: minutesToTime_def js_rem_def js_toString_def padStart0_def show_nat.simps
        digit_char_def digit_chars_def)
  have b: "timeToMinutes ''25:00'' = 1500"
    by (simp add: timeToMinutes_def js_Number_def js_trim_def is_space_def is_digit_def
        digit_chars_def read_nat_def digit_val_def)
  show ?thesis unfolding a b by simp
qed

text \<open>
  C9 (amended): for every non-negative integer minute count \<open>n\<close>, \<open>formatClock\<close>
  produces the zero-padded five-character \<open>HH:MM\<close> string of \<open>n mod 1440\<close>, its hour
  field is below 24, and parsing it gives back \<open>n mod 1440\<close>; \<open>minutesToTime\<close>
  formats \<open>n div 60\<close> and \<open>n mod 60\<close> without reducing modulo 1440, and parsing its
  output gives back \<open>n\<close> itself.
\<close>

theorem clock_formatters_roundtrip:
  "formatClock (int n) =
     padStart0 2 (show_nat (n mod 1440 div 60)) @ '':'' @ padStart0 2 (show_nat (n mod 1440 mod 60))
   \<and> n mod 1440 div 60 < 24
   \<and> length (formatClock (int n)) = 5
   \<and> timeToMinutes (formatClock (int n)) = int (n mod 1440)
   \<and> minutesToTime (int n) =
     padStart0 2 (show_nat (n div 60)) @ '':'' @ padStart0 2 (show_nat (n mod 60))
   \<and> timeToMinutes (minutesToTime (int n)) = int n"
proof -
  have h: "nat (int n mod 1440 div 60) = n mod 1440 div 60"
    by (simp add: nat_div_distrib nat_mod_distrib)
  have m: "nat (int n mod 1440 mod 60) = n mod 1440 mod 60"
    by (simp add: nat_mod_distrib)
  have f: "formatClock (int n) =
     padStart0 2 (show_nat (n mod 1440 div 60)) @ '':'' @ padStart0 2 (show_nat (n mod 1440 mod 60))"
    unfolding formatClock_eq h m ..
  have hb: "n mod 1440 div 60 < 24" by simp
  have len: "length (formatClock (int n)) = 5"
    unfolding f by (simp add: length_show_nat_small)
  have rt: "timeToMinutes (formatClock (int n)) = int (n mod 1440)"
    by (simp add: formatClock_roundtrip zmod_int)
  have g: "minutesToTime (int n) =
     padStart0 2 (show_nat (n div 60)) @ '':'' @ padStart0 2 (show_nat (n mod 60))"
    by (simp add: minutesToTime_eq nat_div_distrib nat_mod_distrib)
  have rt2: "timeToMinutes (minutesToTime (int n)) = int n"
    by (simp add: minutesToTime_roundtrip)
  from f hb len rt g rt2 show ?thesis by blast
qed

section \<open>Payroll tax engine\<close>







section \<open>Competence dates\<close>

lemma show_nat_2026: "show_nat 2026 = ''2026''"
  by (simp add: show_nat.simps digit_char_def digit_chars_def)

text \<open>
  C7: with \<open>cycleStartDay \<le> 1\<close> a card line resolves to that day of the reference
  month; with \<open>cycleStartDay > 1\<close> a line above the cycle day resolves to that day of
  the month before (December of the year before when the reference month is January),
  and a line up to the cycle day stays in the reference month. With cycle day 15 and
  reference 03/2026, line 20 is 2026-02-20 and line 10 is 2026-03-10.
\<close>

theorem resolve_work_date_by_cycle:
  "resolveWorkDateByCompetenciaDay d m y c =
     (if c \<le> 1 then iso_date y m d
      else if d > c then (if m = 1 then iso_date (y - 1) 12 d else iso_date y (m - 1) d)
      else iso_date y m d)
   \<and> resolveWorkDateByCompetenciaDay 20 3 2026 15 = ''2026-02-20''
   \<and> resolveWorkDateByCompetenciaDay 10 3 2026 15 = ''2026-03-10''"
proof -
  have a: "resolveWorkDateByCompetenciaDay d m y c =
     (if c \<le> 1 then iso_date y m d
      else if d > c then (if m = 1 then iso_date (y - 1) 12 d else iso_date y (m - 1) d)
      else iso_date y m d)"
    by (simp add: resolveWorkDateByCompetenciaDay_def iso_date_def Let_def)
  have b: "resolveWorkDateByCompetenciaDay 20 3 2026 15 = ''2026-02-20''"
    by (simp add: resolveWorkDateByCompetenciaDay_def Let_def js_toString_def padStart0_def
        show_nat_2026) (simp add: show_nat.simps digit_char_def digit_chars_def)
  have c: "resolveWorkDateByCompetenciaDay 10 3 2026 15 = ''2026-03-10''"
    by (simp add: resolveWorkDateByCompetenciaDay_def Let_def js_toString_def padStart0_def
        show_nat_2026) (simp add: show_nat.simps digit_char_def digit_chars_def)
  from a b c show ?thesis by blast
qed

section \<open>Overtime classifier\<close>













subsection \<open>Weekly cap\<close>









section \<open>Classification entry point\<close>

text \<open>
  C10 (as stated, refuted): with \<open>entries\<close> absent the call does not always return
  \<open>null\<close>: when the settings are absent too, the guard on the settings comes first and
  the call throws.
\<close>

theorem calculateOvertime_null_entries_may_throw:
  "calculateOvertime None None = Inl SettingsRequired \<and> calculateOvertime None None \<noteq> Inr None"
  by (simp add: calculateOvertime_def)

text \<open>
  C10 (amended): when the settings are present, \<open>calculateOvertime\<close> returns \<open>null\<close>
  for absent entries (it neither throws nor returns an empty totals object) and
  the full result of the engine for a present entries list; when the settings are absent
  it throws \<open>Settings are required\<close>, whatever the entries.
\<close>

theorem calculateOvertime_null_entries:
  "calculateOvertime None (Some s) = Inr None
   \<and> calculateOvertime (Some es) (Some s) = Inr (Some (runOvertimeEngine es s))
   \<and> calculateOvertime entries None = Inl SettingsRequired"
  by (simp add: calculateOvertime_def)

section \<open>Custom weeks\<close>

lemma parseISO_2026_04_05:
  "parseISO ''2026-04-05'' = Some \<lparr>cyear = 2026, cmonth = 4, cday = 5\<rparr>"
  by (simp add: parseISO_def is_digit_def digit_chars_def read_nat_def digit_val_def
      days_in_month_def Let_def)

lemma getDay_april_2026:
  "getDay \<lparr>cyear = 2026, cmonth = 4, cday = d\<rparr> = (d + 2) mod 7"
  by (simp add: getDay_def days_from_civil_def Let_def) presburger

lemma customWeekIndex_april_2026:
  "customWeekIndex \<lparr>cyear = 2026, cmonth = 4, cday = d\<rparr> = (if d > 4 then 1 + (d + 2) div 7 else 1)"
  by (simp add: customWeekIndex_def new_Date_first_def getDay_april_2026 Let_def add.commute)

text \<open>
  C2 (the code departs from the claim): 2026-04-05 is a Sunday and the first Sunday of
  April 2026, and the week key places it in week 2, together with the Monday to Saturday
  after it (6 to 11 April); week 1 ends on Saturday 4 April and week 3 starts on Sunday
  12 April. The same index is used by \<open>groupByCustomWeek\<close> (\<open>weekKeyOf\<close>).
\<close>

theorem custom_week_first_sunday_in_week_2:
  "getDay \<lparr>cyear = 2026, cmonth = 4, cday = 5\<rparr> = 0
   \<and> first_sunday_of_month \<lparr>cyear = 2026, cmonth = 4, cday = 5\<rparr> = 5
   \<and> getCustomWeekKey \<lparr>cyear = 2026, cmonth = 4, cday = 5\<rparr> = ''2026-04-W2''
   \<and> weekKeyOf ((entry example_day)\<lparr>date := ''2026-04-05''\<rparr>) = Some (2026, 4, 2)
   \<and> customWeekIndex \<lparr>cyear = 2026, cmonth = 4, cday = 4\<rparr> = 1
   \<and> customWeekIndex \<lparr>cyear = 2026, cmonth = 4, cday = 5\<rparr> = 2
   \<and> customWeekIndex \<lparr>cyear = 2026, cmonth = 4, cday = 6\<rparr> = 2
   \<and> customWeekIndex \<lparr>cyear = 2026, cmonth = 4, cday = 11\<rparr> = 2
   \<and> customWeekIndex \<lparr>cyear = 2026, cmonth = 4, cday = 12\<rparr> = 3"
proof -
  have a: "getDay \<lparr>cyear = 2026, cmonth = 4, cday = 5\<rparr> = 0"
    by (simp add: getDay_april_2026)
  have b: "first_sunday_of_month \<lparr>cyear = 2026, cmonth = 4, cday = 5\<rparr> = 5"
    by (simp add: first_sunday_of_month_def getDay_april_2026)
  have c: "getCustomWeekKey \<lparr>cyear = 2026, cmonth = 4, cday = 5\<rparr> = ''2026-04-W2''"
    by (simp add: getCustomWeekKey_def customWeekIndex_april_2026 js_toString_def padStart0_def
        show_nat_2026) (simp add: show_nat.simps digit_char_def digit_chars_def)
  have d: "weekKeyOf ((entry example_day)\<lparr>date := ''2026-04-05''\<rparr>) = Some (2026, 4, 2)"
    by (simp add: weekKeyOf_def parseISO_2026_04_05 customWeekIndex_april_2026)
  from a b c d show ?thesis by (simp add: customWeekIndex_april_2026)
qed

end
